theory Spec2Isabelle
  imports Complex_Main "HOL-Library.Word"
begin

unbundle bit_operations_syntax

section \<open>Data model of msh\_vec\_math.h\<close>

text \<open>
  The header declares every vector, matrix and quaternion as a C union of a flat array
  \<^verbatim>\<open>data[n]\<close> with named fields over the same storage. Each union is a record here,
  one field per scalar slot, in storage order: \<^verbatim>\<open>v.x\<close> and \<^verbatim>\<open>v.data[0]\<close> are the same
  field. The scalar type is a parameter of the records.

  \<^verbatim>\<open>msh_scalar_t\<close> is a \<^verbatim>\<open>float\<close> in the default build. Functions that only copy
  scalars are polymorphic in the scalar type. Where the property at hand is a formula
  on finite values, the function is modelled over the reals (\<open>msh_scalar_t\<close>): exact
  arithmetic, with no rounding, overflow, infinity or NaN. Where infinities and NaNs
  decide the property (\<^verbatim>\<open>msh_mat4_vec3_mul\<close>, \<^verbatim>\<open>msh_vecN_equal\<close>), the function is
  modelled over \<open>fval\<close>, the values of a float with the IEEE-754 rules for the special
  values. The functions that compare scalars with \<^verbatim>\<open>==\<close> are modelled on the binary32
  bit pattern (\<open>float_bits\<close>), where that comparison is defined exactly.
\<close>

type_synonym msh_scalar_t = real

record 's msh_vec2_t =
  vec2_x :: 's
  vec2_y :: 's

record 's msh_vec3_t =
  vec3_x :: 's
  vec3_y :: 's
  vec3_z :: 's

record 's msh_vec4_t =
  vec4_x :: 's
  vec4_y :: 's
  vec4_z :: 's
  vec4_w :: 's

text \<open>The quaternion union: \<^verbatim>\<open>x, y, z, w\<close>, also viewed as \<^verbatim>\<open>im\<close> (the first three
  slots as a \<^verbatim>\<open>msh_vec3_t\<close>) and \<^verbatim>\<open>re\<close> (the fourth slot).\<close>

record 's msh_quat_t =
  quat_x :: 's
  quat_y :: 's
  quat_z :: 's
  quat_w :: 's

definition quat_im :: "'s msh_quat_t \<Rightarrow> 's msh_vec3_t" where
  "quat_im q = \<lparr>vec3_x = quat_x q, vec3_y = quat_y q, vec3_z = quat_z q\<rparr>"

definition quat_re :: "'s msh_quat_t \<Rightarrow> 's" where
  "quat_re q = quat_w q"

text \<open>Matrices are column-major: \<^verbatim>\<open>data[c * n + r]\<close> is row \<open>r\<close> of column \<open>c\<close>.\<close>

record 's msh_mat2_t =
  mat2_d0 :: 's
  mat2_d1 :: 's
  mat2_d2 :: 's
  mat2_d3 :: 's

record 's msh_mat3_t =
  mat3_d0 :: 's
  mat3_d1 :: 's
  mat3_d2 :: 's
  mat3_d3 :: 's
  mat3_d4 :: 's
  mat3_d5 :: 's
  mat3_d6 :: 's
  mat3_d7 :: 's
  mat3_d8 :: 's

record 's msh_mat4_t =
  mat4_d0 :: 's
  mat4_d1 :: 's
  mat4_d2 :: 's
  mat4_d3 :: 's
  mat4_d4 :: 's
  mat4_d5 :: 's
  mat4_d6 :: 's
  mat4_d7 :: 's
  mat4_d8 :: 's
  mat4_d9 :: 's
  mat4_d10 :: 's
  mat4_d11 :: 's
  mat4_d12 :: 's
  mat4_d13 :: 's
  mat4_d14 :: 's
  mat4_d15 :: 's

text \<open>The initialiser macros \<^verbatim>\<open>msh_vec2(x,y)\<close>, \<^verbatim>\<open>msh_vec3(x,y,z)\<close>,
  \<^verbatim>\<open>msh_vec4(x,y,z,w)\<close> and \<^verbatim>\<open>msh_quat(x,y,z,w)\<close>.\<close>

definition msh_vec2 :: "'s \<Rightarrow> 's \<Rightarrow> 's msh_vec2_t" where
  "msh_vec2 a b = \<lparr>vec2_x = a, vec2_y = b\<rparr>"

definition msh_vec3 :: "'s \<Rightarrow> 's \<Rightarrow> 's \<Rightarrow> 's msh_vec3_t" where
  "msh_vec3 a b c = \<lparr>vec3_x = a, vec3_y = b, vec3_z = c\<rparr>"

definition msh_vec4 :: "'s \<Rightarrow> 's \<Rightarrow> 's \<Rightarrow> 's \<Rightarrow> 's msh_vec4_t" where
  "msh_vec4 a b c d = \<lparr>vec4_x = a, vec4_y = b, vec4_z = c, vec4_w = d\<rparr>"

definition msh_quat :: "'s \<Rightarrow> 's \<Rightarrow> 's \<Rightarrow> 's \<Rightarrow> 's msh_quat_t" where
  "msh_quat a b c d = \<lparr>quat_x = a, quat_y = b, quat_z = c, quat_w = d\<rparr>"

section \<open>Floating-point values\<close>

text \<open>
  The value of a float: a finite number, an infinity or a NaN. The operations follow
  IEEE-754 on the special values and are exact on finite values (rounding and overflow
  of finite results are not modelled). \<open>+0\<close> and \<open>-0\<close> are the one value \<open>Fin 0\<close>.
\<close>

datatype fval = Fin real | PInf | NInf | NaN

definition is_finite :: "fval \<Rightarrow> bool" where
  "is_finite a = (case a of Fin x \<Rightarrow> True | PInf \<Rightarrow> False | NInf \<Rightarrow> False | NaN \<Rightarrow> False)"

fun fadd :: "fval \<Rightarrow> fval \<Rightarrow> fval" where
  "fadd (Fin a) (Fin b) = Fin (a + b)"
| "fadd (Fin a) PInf = PInf"
| "fadd (Fin a) NInf = NInf"
| "fadd PInf (Fin b) = PInf"
| "fadd PInf PInf = PInf"
| "fadd PInf NInf = NaN"
| "fadd NInf (Fin b) = NInf"
| "fadd NInf PInf = NaN"
| "fadd NInf NInf = NInf"
| "fadd NaN b = NaN"
| "fadd a NaN = NaN"

fun fneg :: "fval \<Rightarrow> fval" where
  "fneg (Fin a) = Fin (- a)"
| "fneg PInf = NInf"
| "fneg NInf = PInf"
| "fneg NaN = NaN"

text \<open>An infinity times a finite \<open>s\<close>: NaN for a zero, else the infinity of the sign of
  \<open>s\<close>.\<close>

definition signed_inf :: "real \<Rightarrow> fval" where
  "signed_inf s = (if s = 0 then NaN else if 0 < s then PInf else NInf)"

fun fmul :: "fval \<Rightarrow> fval \<Rightarrow> fval" where
  "fmul (Fin a) (Fin b) = Fin (a * b)"
| "fmul (Fin a) PInf = signed_inf a"
| "fmul (Fin a) NInf = signed_inf (- a)"
| "fmul PInf (Fin b) = signed_inf b"
| "fmul NInf (Fin b) = signed_inf (- b)"
| "fmul PInf PInf = PInf"
| "fmul PInf NInf = NInf"
| "fmul NInf PInf = NInf"
| "fmul NInf NInf = PInf"
| "fmul NaN b = NaN"
| "fmul a NaN = NaN"

fun fabs :: "fval \<Rightarrow> fval" where
  "fabs (Fin a) = Fin \<bar>a\<bar>"
| "fabs PInf = PInf"
| "fabs NInf = PInf"
| "fabs NaN = NaN"

text \<open>\<^verbatim>\<open>a <= b\<close>: false as soon as one side is a NaN.\<close>

fun fle :: "fval \<Rightarrow> fval \<Rightarrow> bool" where
  "fle (Fin a) (Fin b) = (a \<le> b)"
| "fle (Fin a) PInf = True"
| "fle (Fin a) NInf = False"
| "fle PInf (Fin b) = False"
| "fle PInf PInf = True"
| "fle PInf NInf = False"
| "fle NInf (Fin b) = True"
| "fle NInf PInf = True"
| "fle NInf NInf = True"
| "fle NaN b = False"
| "fle a NaN = False"

text \<open>The C operators \<^verbatim>\<open>+\<close>, \<^verbatim>\<open>-\<close> and \<^verbatim>\<open>*\<close> on float values.\<close>

instantiation fval :: "{zero, one, plus, minus, times}"
begin

definition zero_fval_def: "0 = Fin 0"

definition one_fval_def: "1 = Fin 1"

definition plus_fval_def: "a + b = fadd a b"

definition minus_fval_def: "a - b = fadd a (fneg b)"

definition times_fval_def: "a * b = fmul a b"

instance ..

end

text \<open>
  The cast \<^verbatim>\<open>(float)i\<close> of an \<^verbatim>\<open>int32_t\<close>: the nearest binary32 value, ties to even. A
  float has 24 significant bits, so the \<open>binary32_shift\<close> low bits of the magnitude
  (at most 8 for a magnitude up to \<open>2^31\<close>) are rounded away.
\<close>

definition binary32_shift :: "nat \<Rightarrow> nat" where
  "binary32_shift a =
     (if a < 2 ^ 24 then 0 else if a < 2 ^ 25 then 1 else if a < 2 ^ 26 then 2
      else if a < 2 ^ 27 then 3 else if a < 2 ^ 28 then 4 else if a < 2 ^ 29 then 5
      else if a < 2 ^ 30 then 6 else if a < 2 ^ 31 then 7 else 8)"

definition round_binary32 :: "int \<Rightarrow> real" where
  "round_binary32 n =
     (let a = nat \<bar>n\<bar>;
          u = 2 ^ binary32_shift a;
          qd = a div u;
          rm = a mod u;
          qr = (if u < 2 * rm \<or> (2 * rm = u \<and> odd qd) then qd + 1 else qd)
      in (if n < 0 then - 1 else 1) * real (qr * u))"

definition float_of_int32 :: "32 word \<Rightarrow> fval" where
  "float_of_int32 i = Fin (round_binary32 (sint i))"

text \<open>\<^verbatim>\<open>MSH_FLT_EPSILON\<close> is \<^verbatim>\<open>FLT_EPSILON\<close> of \<^verbatim>\<open><float.h>\<close>, which is not part of the
  repository: \<open>2^-23\<close> for binary32.\<close>

definition MSH_FLT_EPSILON :: fval where
  "MSH_FLT_EPSILON = Fin (1 / 2 ^ 23)"

section \<open>Vector operations\<close>

definition msh_vec2_scalar_add :: "msh_scalar_t msh_vec2_t \<Rightarrow> msh_scalar_t \<Rightarrow> msh_scalar_t msh_vec2_t" where
  "msh_vec2_scalar_add v s = msh_vec2 (vec2_x v + s) (vec2_y v + s)"

definition msh_vec3_scalar_add :: "msh_scalar_t msh_vec3_t \<Rightarrow> msh_scalar_t \<Rightarrow> msh_scalar_t msh_vec3_t" where
  "msh_vec3_scalar_add v s = msh_vec3 (vec3_x v + s) (vec3_y v + s) (vec3_z v + s)"

definition msh_vec4_scalar_add :: "msh_scalar_t msh_vec4_t \<Rightarrow> msh_scalar_t \<Rightarrow> msh_scalar_t msh_vec4_t" where
  "msh_vec4_scalar_add v s =
     msh_vec4 (vec4_x v + s) (vec4_y v + s) (vec4_z v + s) (vec4_w v + s)"

definition msh_vec2_scalar_sub :: "msh_scalar_t msh_vec2_t \<Rightarrow> msh_scalar_t \<Rightarrow> msh_scalar_t msh_vec2_t" where
  "msh_vec2_scalar_sub v s = msh_vec2 (vec2_x v - s) (vec2_y v - s)"

definition msh_vec3_scalar_sub :: "msh_scalar_t msh_vec3_t \<Rightarrow> msh_scalar_t \<Rightarrow> msh_scalar_t msh_vec3_t" where
  "msh_vec3_scalar_sub v s = msh_vec3 (vec3_x v - s) (vec3_y v - s) (vec3_z v - s)"

definition msh_vec4_scalar_sub :: "msh_scalar_t msh_vec4_t \<Rightarrow> msh_scalar_t \<Rightarrow> msh_scalar_t msh_vec4_t" where
  "msh_vec4_scalar_sub v s =
     msh_vec4 (vec4_x v - s) (vec4_y v - s) (vec4_z v - s) (vec4_w v - s)"

definition msh_vec3_add :: "('s::plus) msh_vec3_t \<Rightarrow> 's msh_vec3_t \<Rightarrow> 's msh_vec3_t" where
  "msh_vec3_add a b = msh_vec3 (vec3_x a + vec3_x b) (vec3_y a + vec3_y b) (vec3_z a + vec3_z b)"

definition msh_vec3_scalar_mul :: "msh_scalar_t msh_vec3_t \<Rightarrow> msh_scalar_t \<Rightarrow> msh_scalar_t msh_vec3_t" where
  "msh_vec3_scalar_mul v s = msh_vec3 (vec3_x v * s) (vec3_y v * s) (vec3_z v * s)"

text \<open>\<^verbatim>\<open>fminf\<close> and \<^verbatim>\<open>fmaxf\<close> of the C library, on finite values.\<close>

definition fminf :: "msh_scalar_t \<Rightarrow> msh_scalar_t \<Rightarrow> msh_scalar_t" where
  "fminf a b = (if a < b then a else b)"

definition fmaxf :: "msh_scalar_t \<Rightarrow> msh_scalar_t \<Rightarrow> msh_scalar_t" where
  "fmaxf a b = (if a < b then b else a)"

text \<open>The parameters \<^verbatim>\<open>min\<close> and \<^verbatim>\<open>max\<close> of the source are \<open>mn\<close> and \<open>mx\<close> here.\<close>

definition msh_vec2_clamp :: "msh_scalar_t msh_vec2_t \<Rightarrow> msh_scalar_t \<Rightarrow> msh_scalar_t \<Rightarrow> msh_scalar_t msh_vec2_t" where
  "msh_vec2_clamp v mn mx =
     (if mn > mx then v
      else msh_vec2 (fminf (fmaxf (vec2_x v) mn) mx)
                    (fminf (fmaxf (vec2_y v) mn) mx))"

definition msh_vec3_clamp :: "msh_scalar_t msh_vec3_t \<Rightarrow> msh_scalar_t \<Rightarrow> msh_scalar_t \<Rightarrow> msh_scalar_t msh_vec3_t" where
  "msh_vec3_clamp v mn mx =
     (if mn > mx then v
      else msh_vec3 (fminf (fmaxf (vec3_x v) mn) mx)
                    (fminf (fmaxf (vec3_y v) mn) mx)
                    (fminf (fmaxf (vec3_z v) mn) mx))"

definition msh_vec4_clamp :: "msh_scalar_t msh_vec4_t \<Rightarrow> msh_scalar_t \<Rightarrow> msh_scalar_t \<Rightarrow> msh_scalar_t msh_vec4_t" where
  "msh_vec4_clamp v mn mx =
     (if mn > mx then v
      else msh_vec4 (fminf (fmaxf (vec4_x v) mn) mx)
                    (fminf (fmaxf (vec4_y v) mn) mx)
                    (fminf (fmaxf (vec4_z v) mn) mx)
                    (fminf (fmaxf (vec4_w v) mn) mx))"

definition msh_vec2_dot :: "msh_scalar_t msh_vec2_t \<Rightarrow> msh_scalar_t msh_vec2_t \<Rightarrow> msh_scalar_t" where
  "msh_vec2_dot a b = vec2_x a * vec2_x b + vec2_y a * vec2_y b"

definition msh_vec3_dot :: "msh_scalar_t msh_vec3_t \<Rightarrow> msh_scalar_t msh_vec3_t \<Rightarrow> msh_scalar_t" where
  "msh_vec3_dot a b = vec3_x a * vec3_x b + vec3_y a * vec3_y b + vec3_z a * vec3_z b"

definition msh_vec4_dot :: "msh_scalar_t msh_vec4_t \<Rightarrow> msh_scalar_t msh_vec4_t \<Rightarrow> msh_scalar_t" where
  "msh_vec4_dot a b =
     vec4_x a * vec4_x b + vec4_y a * vec4_y b + vec4_z a * vec4_z b + vec4_w a * vec4_w b"

text \<open>The source repeats the body under the second name; it does not call
  \<^verbatim>\<open>msh_vecN_dot\<close>.\<close>

definition msh_vec2_inner_product :: "msh_scalar_t msh_vec2_t \<Rightarrow> msh_scalar_t msh_vec2_t \<Rightarrow> msh_scalar_t" where
  "msh_vec2_inner_product a b = vec2_x a * vec2_x b + vec2_y a * vec2_y b"

definition msh_vec3_inner_product :: "msh_scalar_t msh_vec3_t \<Rightarrow> msh_scalar_t msh_vec3_t \<Rightarrow> msh_scalar_t" where
  "msh_vec3_inner_product a b = vec3_x a * vec3_x b + vec3_y a * vec3_y b + vec3_z a * vec3_z b"

definition msh_vec4_inner_product :: "msh_scalar_t msh_vec4_t \<Rightarrow> msh_scalar_t msh_vec4_t \<Rightarrow> msh_scalar_t" where
  "msh_vec4_inner_product a b =
     vec4_x a * vec4_x b + vec4_y a * vec4_y b + vec4_z a * vec4_z b + vec4_w a * vec4_w b"

text \<open>
  \<^verbatim>\<open>msh_vecN_equal\<close>: every component difference is at most \<^verbatim>\<open>MSH_FLT_EPSILON\<close> in
  absolute value. The result is the \<^verbatim>\<open>int\<close> of the \<^verbatim>\<open>&&\<close> chain, 1 or 0.
\<close>

definition msh_vec2_equal :: "fval msh_vec2_t \<Rightarrow> fval msh_vec2_t \<Rightarrow> int" where
  "msh_vec2_equal a b =
     (if fle (fabs (vec2_x a - vec2_x b)) MSH_FLT_EPSILON \<and>
         fle (fabs (vec2_y a - vec2_y b)) MSH_FLT_EPSILON
      then 1 else 0)"

definition msh_vec3_equal :: "fval msh_vec3_t \<Rightarrow> fval msh_vec3_t \<Rightarrow> int" where
  "msh_vec3_equal a b =
     (if fle (fabs (vec3_x a - vec3_x b)) MSH_FLT_EPSILON \<and>
         fle (fabs (vec3_y a - vec3_y b)) MSH_FLT_EPSILON \<and>
         fle (fabs (vec3_z a - vec3_z b)) MSH_FLT_EPSILON
      then 1 else 0)"

definition msh_vec4_equal :: "fval msh_vec4_t \<Rightarrow> fval msh_vec4_t \<Rightarrow> int" where
  "msh_vec4_equal a b =
     (if fle (fabs (vec4_x a - vec4_x b)) MSH_FLT_EPSILON \<and>
         fle (fabs (vec4_y a - vec4_y b)) MSH_FLT_EPSILON \<and>
         fle (fabs (vec4_z a - vec4_z b)) MSH_FLT_EPSILON \<and>
         fle (fabs (vec4_w a - vec4_w b)) MSH_FLT_EPSILON
      then 1 else 0)"

section \<open>Matrix operations\<close>

definition msh_mat2_determinant :: "msh_scalar_t msh_mat2_t \<Rightarrow> msh_scalar_t" where
  "msh_mat2_determinant m = mat2_d0 m * mat2_d3 m - mat2_d2 m * mat2_d1 m"

definition msh_mat2_transpose :: "'s msh_mat2_t \<Rightarrow> 's msh_mat2_t" where
  "msh_mat2_transpose m =
     \<lparr>mat2_d0 = mat2_d0 m,
      mat2_d1 = mat2_d2 m,
      mat2_d2 = mat2_d1 m,
      mat2_d3 = mat2_d3 m\<rparr>"

definition msh_mat3_transpose :: "'s msh_mat3_t \<Rightarrow> 's msh_mat3_t" where
  "msh_mat3_transpose m =
     \<lparr>mat3_d0 = mat3_d0 m,
      mat3_d1 = mat3_d3 m,
      mat3_d2 = mat3_d6 m,
      mat3_d3 = mat3_d1 m,
      mat3_d4 = mat3_d4 m,
      mat3_d5 = mat3_d7 m,
      mat3_d6 = mat3_d2 m,
      mat3_d7 = mat3_d5 m,
      mat3_d8 = mat3_d8 m\<rparr>"

definition msh_mat4_transpose :: "'s msh_mat4_t \<Rightarrow> 's msh_mat4_t" where
  "msh_mat4_transpose m =
     \<lparr>mat4_d0 = mat4_d0 m,
      mat4_d1 = mat4_d4 m,
      mat4_d2 = mat4_d8 m,
      mat4_d3 = mat4_d12 m,
      mat4_d4 = mat4_d1 m,
      mat4_d5 = mat4_d5 m,
      mat4_d6 = mat4_d9 m,
      mat4_d7 = mat4_d13 m,
      mat4_d8 = mat4_d2 m,
      mat4_d9 = mat4_d6 m,
      mat4_d10 = mat4_d10 m,
      mat4_d11 = mat4_d14 m,
      mat4_d12 = mat4_d3 m,
      mat4_d13 = mat4_d7 m,
      mat4_d14 = mat4_d11 m,
      mat4_d15 = mat4_d15 m\<rparr>"

text \<open>\<^verbatim>\<open>is_point\<close> is an \<^verbatim>\<open>int32_t\<close>, cast to \<^verbatim>\<open>float\<close> and multiplied into the
  translation column on every call, also when it is 0.\<close>

definition msh_mat4_vec3_mul :: "fval msh_mat4_t \<Rightarrow> fval msh_vec3_t \<Rightarrow> 32 word \<Rightarrow> fval msh_vec3_t" where
  "msh_mat4_vec3_mul m v is_point =
     \<lparr>vec3_x = mat4_d0 m * vec3_x v + mat4_d4 m * vec3_y v + mat4_d8 m * vec3_z v
                + float_of_int32 is_point * mat4_d12 m,
      vec3_y = mat4_d1 m * vec3_x v + mat4_d5 m * vec3_y v + mat4_d9 m * vec3_z v
                + float_of_int32 is_point * mat4_d13 m,
      vec3_z = mat4_d2 m * vec3_x v + mat4_d6 m * vec3_y v + mat4_d10 m * vec3_z v
                + float_of_int32 is_point * mat4_d14 m\<rparr>"

text \<open>The two vectors the description of \<^verbatim>\<open>msh_mat4_vec3_mul\<close> speaks of: the product
  of the upper-left 3x3 block with \<open>v\<close>, and the translation column
  \<^verbatim>\<open>m.data[12..14]\<close>.\<close>

definition spec_upper3x3_mul :: "fval msh_mat4_t \<Rightarrow> fval msh_vec3_t \<Rightarrow> fval msh_vec3_t" where
  "spec_upper3x3_mul m v =
     msh_vec3 (mat4_d0 m * vec3_x v + mat4_d4 m * vec3_y v + mat4_d8 m * vec3_z v)
              (mat4_d1 m * vec3_x v + mat4_d5 m * vec3_y v + mat4_d9 m * vec3_z v)
              (mat4_d2 m * vec3_x v + mat4_d6 m * vec3_y v + mat4_d10 m * vec3_z v)"

definition finite_vec3 :: "fval msh_vec3_t \<Rightarrow> bool" where
  "finite_vec3 v = (is_finite (vec3_x v) \<and> is_finite (vec3_y v) \<and> is_finite (vec3_z v))"

definition spec_translation_column :: "'s msh_mat4_t \<Rightarrow> 's msh_vec3_t" where
  "spec_translation_column m = msh_vec3 (mat4_d12 m) (mat4_d13 m) (mat4_d14 m)"

subsection \<open>Exact comparison of matrices\<close>

text \<open>
  \<^verbatim>\<open>msh_matN_equal\<close> compares components with C's \<^verbatim>\<open>==\<close>. On a \<^verbatim>\<open>float\<close> that is
  IEEE-754 equality, a function of the two bit patterns: a NaN (exponent all ones,
  fraction not zero) is equal to nothing, itself included, the two zeros (all bits zero
  but perhaps the sign) are equal to each other, and any other two values are equal
  when their bit patterns are.
\<close>

type_synonym float_bits = "32 word"

definition float_is_nan :: "float_bits \<Rightarrow> bool" where
  "float_is_nan f = (0x7F800000 < (f AND 0x7FFFFFFF))"

definition float_is_zero :: "float_bits \<Rightarrow> bool" where
  "float_is_zero f = ((f AND 0x7FFFFFFF) = 0)"

definition float_eq :: "float_bits \<Rightarrow> float_bits \<Rightarrow> bool" where
  "float_eq a b =
     (\<not> float_is_nan a \<and> \<not> float_is_nan b \<and> (a = b \<or> (float_is_zero a \<and> float_is_zero b)))"

text \<open>\<^verbatim>\<open>result && c\<close> on an \<^verbatim>\<open>int\<close> result: 1 when both hold, 0 otherwise.\<close>

definition c_land :: "int \<Rightarrow> bool \<Rightarrow> int" where
  "c_land r c = (if r \<noteq> 0 \<and> c then 1 else 0)"

definition msh_mat2_equal :: "float_bits msh_mat2_t \<Rightarrow> float_bits msh_mat2_t \<Rightarrow> int" where
  "msh_mat2_equal a b =
     (let result = 1;
          result = c_land result (float_eq (mat2_d0 a) (mat2_d0 b));
          result = c_land result (float_eq (mat2_d1 a) (mat2_d1 b));
          result = c_land result (float_eq (mat2_d2 a) (mat2_d2 b));
          result = c_land result (float_eq (mat2_d3 a) (mat2_d3 b))
      in result)"

definition msh_mat3_equal :: "float_bits msh_mat3_t \<Rightarrow> float_bits msh_mat3_t \<Rightarrow> int" where
  "msh_mat3_equal a b =
     (let result = 1;
          result = c_land result (float_eq (mat3_d0 a) (mat3_d0 b));
          result = c_land result (float_eq (mat3_d1 a) (mat3_d1 b));
          result = c_land result (float_eq (mat3_d2 a) (mat3_d2 b));
          result = c_land result (float_eq (mat3_d3 a) (mat3_d3 b));
          result = c_land result (float_eq (mat3_d4 a) (mat3_d4 b));
          result = c_land result (float_eq (mat3_d5 a) (mat3_d5 b));
          result = c_land result (float_eq (mat3_d6 a) (mat3_d6 b));
          result = c_land result (float_eq (mat3_d7 a) (mat3_d7 b));
          result = c_land result (float_eq (mat3_d8 a) (mat3_d8 b))
      in result)"

definition msh_mat4_equal :: "float_bits msh_mat4_t \<Rightarrow> float_bits msh_mat4_t \<Rightarrow> int" where
  "msh_mat4_equal a b =
     (let result = 1;
          result = c_land result (float_eq (mat4_d0 a) (mat4_d0 b));
          result = c_land result (float_eq (mat4_d1 a) (mat4_d1 b));
          result = c_land result (float_eq (mat4_d2 a) (mat4_d2 b));
          result = c_land result (float_eq (mat4_d3 a) (mat4_d3 b));
          result = c_land result (float_eq (mat4_d4 a) (mat4_d4 b));
          result = c_land result (float_eq (mat4_d5 a) (mat4_d5 b));
          result = c_land result (float_eq (mat4_d6 a) (mat4_d6 b));
          result = c_land result (float_eq (mat4_d7 a) (mat4_d7 b));
          result = c_land result (float_eq (mat4_d8 a) (mat4_d8 b));
          result = c_land result (float_eq (mat4_d9 a) (mat4_d9 b));
          result = c_land result (float_eq (mat4_d10 a) (mat4_d10 b));
          result = c_land result (float_eq (mat4_d11 a) (mat4_d11 b));
          result = c_land result (float_eq (mat4_d12 a) (mat4_d12 b));
          result = c_land result (float_eq (mat4_d13 a) (mat4_d13 b));
          result = c_land result (float_eq (mat4_d14 a) (mat4_d14 b));
          result = c_land result (float_eq (mat4_d15 a) (mat4_d15 b))
      in result)"

text \<open>The \<^verbatim>\<open>data\<close> view of a matrix, and the pairs of scalars on which \<^verbatim>\<open>==\<close> and
  identity of bit patterns agree: neither is a NaN, and they are not two zeros of
  opposite sign.\<close>

definition mat2_data :: "'s msh_mat2_t \<Rightarrow> 's list" where
  "mat2_data m = [mat2_d0 m, mat2_d1 m, mat2_d2 m, mat2_d3 m]"

definition mat3_data :: "'s msh_mat3_t \<Rightarrow> 's list" where
  "mat3_data m = [mat3_d0 m, mat3_d1 m, mat3_d2 m, mat3_d3 m, mat3_d4 m,
                  mat3_d5 m, mat3_d6 m, mat3_d7 m, mat3_d8 m]"

definition mat4_data :: "'s msh_mat4_t \<Rightarrow> 's list" where
  "mat4_data m = [mat4_d0 m, mat4_d1 m, mat4_d2 m, mat4_d3 m,
                  mat4_d4 m, mat4_d5 m, mat4_d6 m, mat4_d7 m,
                  mat4_d8 m, mat4_d9 m, mat4_d10 m, mat4_d11 m,
                  mat4_d12 m, mat4_d13 m, mat4_d14 m, mat4_d15 m]"

definition plain_pair :: "float_bits \<Rightarrow> float_bits \<Rightarrow> bool" where
  "plain_pair a b =
     (\<not> float_is_nan a \<and> \<not> float_is_nan b \<and> \<not> (float_is_zero a \<and> float_is_zero b \<and> a \<noteq> b))"

text \<open>
  The value of a bit pattern: sign bit, 8 exponent bits, 23 fraction bits. Exponent 255
  is an infinity (fraction 0) or a NaN, exponent 0 a zero or a subnormal.
\<close>

definition float_val :: "float_bits \<Rightarrow> fval" where
  "float_val f =
     (let mag = f AND 0x7FFFFFFF;
          e = unat (drop_bit 23 mag);
          m = unat (take_bit 23 mag);
          s = (if f AND 0x80000000 = 0 then 1 else - 1)
      in if e = 255 then (if m = 0 then (if s = 1 then PInf else NInf) else NaN)
         else if e = 0 then Fin (s * real m / 2 ^ 149)
         else Fin (s * real (2 ^ 23 + m) * 2 ^ e / 2 ^ 150))"

definition float_finite :: "float_bits \<Rightarrow> bool" where
  "float_finite f = is_finite (float_val f)"

definition vec2_val :: "float_bits msh_vec2_t \<Rightarrow> fval msh_vec2_t" where
  "vec2_val v = msh_vec2 (float_val (vec2_x v)) (float_val (vec2_y v))"

definition vec3_val :: "float_bits msh_vec3_t \<Rightarrow> fval msh_vec3_t" where
  "vec3_val v = msh_vec3 (float_val (vec3_x v)) (float_val (vec3_y v)) (float_val (vec3_z v))"

definition vec4_val :: "float_bits msh_vec4_t \<Rightarrow> fval msh_vec4_t" where
  "vec4_val v =
     msh_vec4 (float_val (vec4_x v)) (float_val (vec4_y v)) (float_val (vec4_z v))
              (float_val (vec4_w v))"

text \<open>The \<^verbatim>\<open>col\<close> view of the matrix unions: the columns as vectors over the same
  storage.\<close>

definition mat2_col :: "'s msh_mat2_t \<Rightarrow> 's msh_vec2_t list" where
  "mat2_col m = [msh_vec2 (mat2_d0 m) (mat2_d1 m), msh_vec2 (mat2_d2 m) (mat2_d3 m)]"

definition mat3_col :: "'s msh_mat3_t \<Rightarrow> 's msh_vec3_t list" where
  "mat3_col m = [msh_vec3 (mat3_d0 m) (mat3_d1 m) (mat3_d2 m),
                 msh_vec3 (mat3_d3 m) (mat3_d4 m) (mat3_d5 m),
                 msh_vec3 (mat3_d6 m) (mat3_d7 m) (mat3_d8 m)]"

definition mat4_col :: "'s msh_mat4_t \<Rightarrow> 's msh_vec4_t list" where
  "mat4_col m = [msh_vec4 (mat4_d0 m) (mat4_d1 m) (mat4_d2 m) (mat4_d3 m),
                 msh_vec4 (mat4_d4 m) (mat4_d5 m) (mat4_d6 m) (mat4_d7 m),
                 msh_vec4 (mat4_d8 m) (mat4_d9 m) (mat4_d10 m) (mat4_d11 m),
                 msh_vec4 (mat4_d12 m) (mat4_d13 m) (mat4_d14 m) (mat4_d15 m)]"

section \<open>Quaternion operations\<close>

text \<open>The assignments \<^verbatim>\<open>o.im = v; o.re = s;\<close> to a fresh quaternion \<^verbatim>\<open>o\<close> (the local
  \<^verbatim>\<open>o\<close> of the source is \<open>out\<close> in the definitions below).\<close>

definition quat_of_im_re :: "'s msh_vec3_t \<Rightarrow> 's \<Rightarrow> 's msh_quat_t" where
  "quat_of_im_re v s = \<lparr>quat_x = vec3_x v, quat_y = vec3_y v, quat_z = vec3_z v, quat_w = s\<rparr>"

definition msh_quat_zeros :: "msh_scalar_t msh_quat_t" where
  "msh_quat_zeros = msh_quat 0 0 0 0"

definition msh_quat_identity :: "msh_scalar_t msh_quat_t" where
  "msh_quat_identity = msh_quat 0 0 0 1"

definition msh_quat_from_axis_angle :: "msh_scalar_t msh_vec3_t \<Rightarrow> msh_scalar_t \<Rightarrow> msh_scalar_t msh_quat_t" where
  "msh_quat_from_axis_angle axis angle =
     (let a = angle * 0.5;
          s = sin a
      in msh_quat (vec3_x axis * s) (vec3_y axis * s) (vec3_z axis * s) (cos a))"

definition msh_quat_add :: "msh_scalar_t msh_quat_t \<Rightarrow> msh_scalar_t msh_quat_t \<Rightarrow> msh_scalar_t msh_quat_t" where
  "msh_quat_add a b =
     msh_quat (quat_x a + quat_x b) (quat_y a + quat_y b) (quat_z a + quat_z b) (quat_w a + quat_w b)"

definition msh_quat_scalar_add :: "msh_scalar_t msh_quat_t \<Rightarrow> msh_scalar_t \<Rightarrow> msh_scalar_t msh_quat_t" where
  "msh_quat_scalar_add v s =
     (let out = v;
          out = out\<lparr>quat_w := quat_re out + s\<rparr>
      in out)"

definition msh_quat_scalar_sub :: "msh_scalar_t msh_quat_t \<Rightarrow> msh_scalar_t \<Rightarrow> msh_scalar_t msh_quat_t" where
  "msh_quat_scalar_sub v s =
     (let out = v;
          out = out\<lparr>quat_w := quat_re out - s\<rparr>
      in out)"

definition msh_quat_scalar_mul :: "msh_scalar_t msh_quat_t \<Rightarrow> msh_scalar_t \<Rightarrow> msh_scalar_t msh_quat_t" where
  "msh_quat_scalar_mul v s = quat_of_im_re (msh_vec3_scalar_mul (quat_im v) s) (quat_re v * s)"

definition msh_quat_scalar_div :: "msh_scalar_t msh_quat_t \<Rightarrow> msh_scalar_t \<Rightarrow> msh_scalar_t msh_quat_t" where
  "msh_quat_scalar_div v s =
     (let denom = 1 / s
      in msh_quat (quat_x v * denom) (quat_y v * denom) (quat_z v * denom) (quat_w v * denom))"

definition msh_quat_dot :: "msh_scalar_t msh_quat_t \<Rightarrow> msh_scalar_t msh_quat_t \<Rightarrow> msh_scalar_t" where
  "msh_quat_dot a b = quat_x a * quat_x b + quat_y a * quat_y b + quat_z a * quat_z b + quat_w a * quat_w b"

definition msh_quat_norm_sq :: "msh_scalar_t msh_quat_t \<Rightarrow> msh_scalar_t" where
  "msh_quat_norm_sq q = quat_x q * quat_x q + quat_y q * quat_y q + quat_z q * quat_z q + quat_w q * quat_w q"

definition msh_quat_conjugate :: "msh_scalar_t msh_quat_t \<Rightarrow> msh_scalar_t msh_quat_t" where
  "msh_quat_conjugate q = quat_of_im_re (msh_vec3 (- quat_x q) (- quat_y q) (- quat_z q)) (quat_re q)"

text \<open>The local \<^verbatim>\<open>o\<close> of the source is \<open>out\<close> here. It starts as all zeros, and the last
  assignment is \<^verbatim>\<open>o.w *= denom\<close>, on \<^verbatim>\<open>o\<close> itself.\<close>

definition msh_quat_inverse :: "msh_scalar_t msh_quat_t \<Rightarrow> msh_scalar_t msh_quat_t" where
  "msh_quat_inverse q =
     (let out = msh_quat 0 0 0 0;
          denom = 1 / msh_quat_norm_sq q;
          out = out\<lparr>quat_x := - quat_x q * denom\<rparr>;
          out = out\<lparr>quat_y := - quat_y q * denom\<rparr>;
          out = out\<lparr>quat_z := - quat_z q * denom\<rparr>;
          out = out\<lparr>quat_w := quat_w out * denom\<rparr>
      in out)"

text \<open>The inverse as the description has it: the conjugate of \<open>q\<close> divided component-wise by the
  squared norm of \<open>q\<close>.\<close>

definition spec_quat_inverse :: "msh_scalar_t msh_quat_t \<Rightarrow> msh_scalar_t msh_quat_t" where
  "spec_quat_inverse q = msh_quat_scalar_div (msh_quat_conjugate q) (msh_quat_norm_sq q)"

definition msh_quat_lerp :: "msh_scalar_t msh_quat_t \<Rightarrow> msh_scalar_t msh_quat_t \<Rightarrow> msh_scalar_t \<Rightarrow> msh_scalar_t msh_quat_t" where
  "msh_quat_lerp q r t =
     \<lparr>quat_x = quat_x q * (1 - t) + quat_x r * t,
      quat_y = quat_y q * (1 - t) + quat_y r * t,
      quat_z = quat_z q * (1 - t) + quat_z r * t,
      quat_w = quat_w q * (1 - t) + quat_w r * t\<rparr>"

text \<open>
  \<^verbatim>\<open>acosf\<close> of the C library is a parameter: it returns an angle, or \<open>None\<close> for a NaN
  (an argument outside \<open>[-1, 1]\<close>), and \<^verbatim>\<open>fabs(a) > 1e-6\<close> is false for a NaN, which
  sends the code to the \<^verbatim>\<open>msh_quat_lerp\<close> branch. The angle it returns is a float: for
  the argument \<open>-1\<close> the float nearest to \<open>pi\<close>, not \<open>pi\<close>. \<^verbatim>\<open>sin\<close> is the sine on the
  reals and the threshold \<^verbatim>\<open>1e-6\<close> is \<open>1 / 1000000\<close>.
\<close>

definition msh_quat_slerp :: "(msh_scalar_t \<Rightarrow> msh_scalar_t option) \<Rightarrow> msh_scalar_t msh_quat_t \<Rightarrow> msh_scalar_t msh_quat_t \<Rightarrow> msh_scalar_t \<Rightarrow> msh_scalar_t msh_quat_t" where
  "msh_quat_slerp acosf q r t =
     (case acosf (msh_quat_dot q r) of
        None \<Rightarrow> msh_quat_lerp q r t
      | Some a \<Rightarrow>
          if \<bar>a\<bar> > 1 / 1000000
          then msh_quat_add (msh_quat_scalar_mul q (sin (a * (1 - t)) / sin a))
                            (msh_quat_scalar_mul r (sin (a * t) / sin a))
          else msh_quat_lerp q r t)"

section \<open>Concrete inputs\<close>

text \<open>The identity transform with the translation column \<open>(1, 0, 0)\<close>, and with the
  translation column \<open>(+infinity, 0, 0)\<close>.\<close>

definition unit_translation :: "fval msh_mat4_t" where
  "unit_translation =
     \<lparr>mat4_d0 = Fin 1, mat4_d1 = Fin 0, mat4_d2 = Fin 0, mat4_d3 = Fin 0,
      mat4_d4 = Fin 0, mat4_d5 = Fin 1, mat4_d6 = Fin 0, mat4_d7 = Fin 0,
      mat4_d8 = Fin 0, mat4_d9 = Fin 0, mat4_d10 = Fin 1, mat4_d11 = Fin 0,
      mat4_d12 = Fin 1, mat4_d13 = Fin 0, mat4_d14 = Fin 0, mat4_d15 = Fin 1\<rparr>"

definition inf_translation :: "fval msh_mat4_t" where
  "inf_translation =
     \<lparr>mat4_d0 = Fin 1, mat4_d1 = Fin 0, mat4_d2 = Fin 0, mat4_d3 = Fin 0,
      mat4_d4 = Fin 0, mat4_d5 = Fin 1, mat4_d6 = Fin 0, mat4_d7 = Fin 0,
      mat4_d8 = Fin 0, mat4_d9 = Fin 0, mat4_d10 = Fin 1, mat4_d11 = Fin 0,
      mat4_d12 = PInf, mat4_d13 = Fin 0, mat4_d14 = Fin 0, mat4_d15 = Fin 1\<rparr>"

text \<open>Bit patterns of \<^verbatim>\<open>float\<close>: \<open>0x7FC00000\<close> is the quiet NaN, \<open>0x00000000\<close> is \<open>+0\<close>,
  \<open>0x80000000\<close> is \<open>-0\<close>, \<open>0x3F800000\<close> is \<open>1.0\<close>, \<open>0x3F800001\<close> is the next float
  after it, \<open>1 + 2^-23\<close>, and \<open>0x7F800000\<close> is \<open>+infinity\<close>.\<close>

definition inf2 :: "float_bits msh_mat2_t" where
  "inf2 = \<lparr>mat2_d0 = 0x7F800000, mat2_d1 = 0x7F800000, mat2_d2 = 0x7F800000, mat2_d3 = 0x7F800000\<rparr>"

definition ones2 :: "float_bits msh_mat2_t" where
  "ones2 = \<lparr>mat2_d0 = 0x3F800000, mat2_d1 = 0x3F800000, mat2_d2 = 0x3F800000, mat2_d3 = 0x3F800000\<rparr>"

definition ones_eps2 :: "float_bits msh_mat2_t" where
  "ones_eps2 = \<lparr>mat2_d0 = 0x3F800001, mat2_d1 = 0x3F800001, mat2_d2 = 0x3F800001, mat2_d3 = 0x3F800001\<rparr>"

definition nan2 :: "float_bits msh_mat2_t" where
  "nan2 = \<lparr>mat2_d0 = 0x7FC00000, mat2_d1 = 0x7FC00000, mat2_d2 = 0x7FC00000, mat2_d3 = 0x7FC00000\<rparr>"

definition pos_zero2 :: "float_bits msh_mat2_t" where
  "pos_zero2 = \<lparr>mat2_d0 = 0, mat2_d1 = 0, mat2_d2 = 0, mat2_d3 = 0\<rparr>"

definition neg_zero2 :: "float_bits msh_mat2_t" where
  "neg_zero2 = \<lparr>mat2_d0 = 0x80000000, mat2_d1 = 0, mat2_d2 = 0, mat2_d3 = 0\<rparr>"

definition float_identity2 :: "float_bits msh_mat2_t" where
  "float_identity2 = \<lparr>mat2_d0 = 0x3F800000, mat2_d1 = 0, mat2_d2 = 0, mat2_d3 = 0x3F800000\<rparr>"

definition float_identity3 :: "float_bits msh_mat3_t" where
  "float_identity3 =
     \<lparr>mat3_d0 = 0x3F800000, mat3_d1 = 0, mat3_d2 = 0,
      mat3_d3 = 0, mat3_d4 = 0x3F800000, mat3_d5 = 0,
      mat3_d6 = 0, mat3_d7 = 0, mat3_d8 = 0x3F800000\<rparr>"

definition float_identity4 :: "float_bits msh_mat4_t" where
  "float_identity4 =
     \<lparr>mat4_d0 = 0x3F800000, mat4_d1 = 0, mat4_d2 = 0, mat4_d3 = 0,
      mat4_d4 = 0, mat4_d5 = 0x3F800000, mat4_d6 = 0, mat4_d7 = 0,
      mat4_d8 = 0, mat4_d9 = 0, mat4_d10 = 0x3F800000, mat4_d11 = 0,
      mat4_d12 = 0, mat4_d13 = 0, mat4_d14 = 0, mat4_d15 = 0x3F800000\<rparr>"

section \<open>Verified properties\<close>

subsection \<open>Vectors\<close>

text \<open>
  Claim C4. For every vector \<open>v\<close> of dimension 2, 3 or 4 and all scalars \<open>min > max\<close>,
  \<^verbatim>\<open>msh_vec2_clamp\<close>, \<^verbatim>\<open>msh_vec3_clamp\<close> and \<^verbatim>\<open>msh_vec4_clamp\<close> return \<open>v\<close> unchanged:
  inverted bounds are a no-op, not an error.
\<close>

theorem clamp_inverted_bounds:
  assumes "mn > mx"
  shows "msh_vec2_clamp v2 mn mx = v2 \<and> msh_vec3_clamp v3 mn mx = v3 \<and>
         msh_vec4_clamp v4 mn mx = v4"
  using assms by (simp add: msh_vec2_clamp_def msh_vec3_clamp_def msh_vec4_clamp_def)

theorem clamp_inverted_bounds_witness:
  "(5::real) > 3 \<and>
   msh_vec2_clamp (msh_vec2 1 9) 5 3 = msh_vec2 1 9 \<and>
   msh_vec3_clamp (msh_vec3 1 9 4) 5 3 = msh_vec3 1 9 4 \<and>
   msh_vec4_clamp (msh_vec4 1 9 4 (- 2)) 5 3 = msh_vec4 1 9 4 (- 2)"
  using clamp_inverted_bounds [of 3 5 "msh_vec2 1 9" "msh_vec3 1 9 4" "msh_vec4 1 9 4 (- 2)"]
  by simp

text \<open>
  Claim C7. For every pair of vectors \<open>a\<close>, \<open>b\<close> of the same dimension (2, 3 or 4),
  \<^verbatim>\<open>msh_vecN_dot\<close> and \<^verbatim>\<open>msh_vecN_inner_product\<close> return the same value.
\<close>

theorem dot_is_inner_product:
  "msh_vec2_dot a2 b2 = msh_vec2_inner_product a2 b2 \<and>
   msh_vec3_dot a3 b3 = msh_vec3_inner_product a3 b3 \<and>
   msh_vec4_dot a4 b4 = msh_vec4_inner_product a4 b4"
  by (simp add: msh_vec2_dot_def msh_vec2_inner_product_def msh_vec3_dot_def
      msh_vec3_inner_product_def msh_vec4_dot_def msh_vec4_inner_product_def)

subsection \<open>Matrices\<close>

text \<open>
  Claim C9. \<^verbatim>\<open>msh_mat2_determinant\<close> of the 2x2 matrix stored column-major as data
  \<open>{2, 0, 0, 3}\<close> is exactly 6.
\<close>

theorem mat2_determinant_example:
  "msh_mat2_determinant \<lparr>mat2_d0 = 2, mat2_d1 = 0, mat2_d2 = 0, mat2_d3 = 3\<rparr> = 6"
  by (simp add: msh_mat2_determinant_def)

text \<open>
  Claim C5. For every matrix \<open>A\<close> of size 2x2, 3x3 or 4x4, transposing twice gives back
  \<open>A\<close> exactly, component for component. The transposes only copy components, so this
  holds for any scalar type, bit patterns of floats included.
\<close>

theorem transpose_transpose:
  "msh_mat2_transpose (msh_mat2_transpose (a :: 's msh_mat2_t)) = a \<and>
   msh_mat3_transpose (msh_mat3_transpose (b :: 's msh_mat3_t)) = b \<and>
   msh_mat4_transpose (msh_mat4_transpose (c :: 's msh_mat4_t)) = c"
  by (simp add: msh_mat2_transpose_def msh_mat3_transpose_def msh_mat4_transpose_def)

lemma float_of_int32_0: "float_of_int32 0 = Fin 0"
  by (simp add: float_of_int32_def round_binary32_def binary32_shift_def Let_def)

lemma float_of_int32_1: "float_of_int32 1 = Fin 1"
  by (simp add: float_of_int32_def round_binary32_def binary32_shift_def Let_def)

lemma float_of_int32_2: "float_of_int32 2 = Fin 2"
  by (simp add: float_of_int32_def round_binary32_def binary32_shift_def Let_def)

text \<open>The cast rounds: \<open>2^24 + 1\<close> is not a float, and \<open>2^31 - 1\<close> becomes \<open>2^31\<close>.\<close>

lemma float_of_int32_rounds:
  "float_of_int32 16777217 = Fin 16777216 \<and> float_of_int32 16777219 = Fin 16777220 \<and>
   float_of_int32 2147483647 = Fin 2147483648 \<and> float_of_int32 (- 16777217) = Fin (- 16777216)"
  by (simp add: float_of_int32_def round_binary32_def binary32_shift_def Let_def)

lemma is_finite_Fin: "is_finite t = (\<exists>x. t = Fin x)"
  by (cases t) (simp_all add: is_finite_def)

lemma fadd_zero_right: "a + Fin 0 = a"
  by (cases a) (simp_all add: plus_fval_def)

lemma fmul_zero_Fin: "Fin 0 * Fin x = Fin 0"
  by (simp add: times_fval_def)

lemma fmul_one_left: "Fin 1 * t = t"
  by (cases t) (simp_all add: times_fval_def signed_inf_def)

lemma mat4_vec3_mul_direction:
  assumes "finite_vec3 (spec_translation_column m)"
  shows "msh_mat4_vec3_mul m v 0 = spec_upper3x3_mul m v"
proof -
  obtain tx ty tz where "mat4_d12 m = Fin tx" "mat4_d13 m = Fin ty" "mat4_d14 m = Fin tz"
    using assms
    by (auto simp add: finite_vec3_def spec_translation_column_def msh_vec3_def is_finite_Fin)
  then show ?thesis
    by (simp add: msh_mat4_vec3_mul_def spec_upper3x3_mul_def msh_vec3_def float_of_int32_0
        fmul_zero_Fin fadd_zero_right)
qed

lemma mat4_vec3_mul_point:
  "msh_mat4_vec3_mul m v 1 = msh_vec3_add (spec_upper3x3_mul m v) (spec_translation_column m)"
  by (simp add: msh_mat4_vec3_mul_def spec_upper3x3_mul_def msh_vec3_add_def
      spec_translation_column_def msh_vec3_def float_of_int32_1 fmul_one_left)

text \<open>
  Claim C2, as stated: \<^verbatim>\<open>msh_mat4_vec3_mul(m, v, is_point)\<close> is the product of the
  upper-left 3x3 block of \<open>m\<close> with \<open>v\<close>, ignoring the translation column, when
  \<^verbatim>\<open>is_point\<close> is 0, and that product plus the translation column when \<^verbatim>\<open>is_point\<close> is
  true. The code multiplies the flag into the translation column. A true flag other
  than 1 scales the column: with \<^verbatim>\<open>is_point = 2\<close> and the translation \<open>(1, 0, 0)\<close> the
  origin goes to \<open>(2, 0, 0)\<close>, not \<open>(1, 0, 0)\<close>. And a flag of 0 does not ignore an infinite
  translation entry: \<open>0 * infinity\<close> is a NaN, and the origin goes to \<open>(NaN, 0, 0)\<close>
  where the 3x3 product is \<open>(0, 0, 0)\<close>.
\<close>

theorem mat4_vec3_mul_flag_two:
  "(2 :: 32 word) \<noteq> 0 \<and>
   msh_mat4_vec3_mul unit_translation (msh_vec3 (Fin 0) (Fin 0) (Fin 0)) 2
     = msh_vec3 (Fin 2) (Fin 0) (Fin 0) \<and>
   msh_vec3_add (spec_upper3x3_mul unit_translation (msh_vec3 (Fin 0) (Fin 0) (Fin 0)))
                (spec_translation_column unit_translation)
     = msh_vec3 (Fin 1) (Fin 0) (Fin 0) \<and>
   msh_mat4_vec3_mul inf_translation (msh_vec3 (Fin 0) (Fin 0) (Fin 0)) 0
     = msh_vec3 NaN (Fin 0) (Fin 0) \<and>
   spec_upper3x3_mul inf_translation (msh_vec3 (Fin 0) (Fin 0) (Fin 0))
     = msh_vec3 (Fin 0) (Fin 0) (Fin 0)"
  by (simp add: msh_mat4_vec3_mul_def spec_upper3x3_mul_def spec_translation_column_def
      msh_vec3_add_def msh_vec3_def unit_translation_def inf_translation_def
      float_of_int32_0 float_of_int32_2 plus_fval_def times_fval_def signed_inf_def)

text \<open>
  Claim C2, amended. For every 4x4 matrix \<open>m\<close> and 3-vector \<open>v\<close>,
  \<^verbatim>\<open>msh_mat4_vec3_mul(m, v, 0)\<close> is the product of the upper-left 3x3 block of \<open>m\<close> with
  \<open>v\<close>, ignoring the translation column, when the entries \<^verbatim>\<open>m.data[12..14]\<close> are finite
  (neither infinite nor NaN), and \<^verbatim>\<open>msh_mat4_vec3_mul(m, v, 1)\<close> is that product plus the
  translation column \<^verbatim>\<open>m.data[12..14]\<close>. The results are equal as float values: the
  sign of a zero component is not distinguished.
\<close>

theorem mat4_vec3_mul_flag:
  "(finite_vec3 (spec_translation_column m) \<longrightarrow>
      msh_mat4_vec3_mul m v 0 = spec_upper3x3_mul m v) \<and>
   msh_mat4_vec3_mul m v 1 = msh_vec3_add (spec_upper3x3_mul m v) (spec_translation_column m)"
  by (simp add: mat4_vec3_mul_direction mat4_vec3_mul_point)

theorem mat4_vec3_mul_flag_witness:
  "finite_vec3 (spec_translation_column unit_translation) \<and>
   msh_mat4_vec3_mul unit_translation (msh_vec3 (Fin 1) (Fin 2) (Fin 3)) 0
     = msh_vec3 (Fin 1) (Fin 2) (Fin 3) \<and>
   spec_upper3x3_mul unit_translation (msh_vec3 (Fin 1) (Fin 2) (Fin 3))
     = msh_vec3 (Fin 1) (Fin 2) (Fin 3) \<and>
   msh_mat4_vec3_mul unit_translation (msh_vec3 (Fin 1) (Fin 2) (Fin 3)) 1
     = msh_vec3 (Fin 2) (Fin 2) (Fin 3)"
  using mat4_vec3_mul_flag [of unit_translation "msh_vec3 (Fin 1) (Fin 2) (Fin 3)"]
  by (simp add: spec_upper3x3_mul_def spec_translation_column_def finite_vec3_def
      is_finite_def msh_vec3_add_def msh_vec3_def unit_translation_def plus_fval_def
      times_fval_def)

subsection \<open>Exact matrix comparison\<close>

lemma c_land_one: "c_land 1 c = (if c then 1 else 0)"
  by (simp add: c_land_def)

lemma c_land_if: "c_land (if p then 1 else 0) c = (if p \<and> c then 1 else 0)"
  by (simp add: c_land_def)

text \<open>Each comparison returns 1 exactly when every pair of corresponding components is
  equal under \<^verbatim>\<open>==\<close>, and 0 otherwise.\<close>

lemma mat2_equal_float_eq:
  "msh_mat2_equal a b = (if list_all2 float_eq (mat2_data a) (mat2_data b) then 1 else 0)"
  by (simp add: msh_mat2_equal_def mat2_data_def Let_def c_land_one c_land_if)

lemma mat3_equal_float_eq:
  "msh_mat3_equal a b = (if list_all2 float_eq (mat3_data a) (mat3_data b) then 1 else 0)"
  by (simp add: msh_mat3_equal_def mat3_data_def Let_def c_land_one c_land_if)

lemma mat4_equal_float_eq:
  "msh_mat4_equal a b = (if list_all2 float_eq (mat4_data a) (mat4_data b) then 1 else 0)"
  by (simp add: msh_mat4_equal_def mat4_data_def Let_def c_land_one c_land_if)

lemma plain_pair_float_eq: "plain_pair x y \<Longrightarrow> float_eq x y = (x = y)"
  by (auto simp add: plain_pair_def float_eq_def)

lemma plain_pairs_float_eq:
  "list_all2 plain_pair xs ys \<Longrightarrow> list_all2 float_eq xs ys = (xs = ys)"
proof (induction xs ys rule: list_all2_induct)
  case Nil
  show ?case by simp
next
  case (Cons x xs y ys)
  then show ?case by (simp add: plain_pair_float_eq)
qed

lemma mat2_data_inject: "(mat2_data a = mat2_data b) = (a = b)"
  by (cases a, cases b) (simp add: mat2_data_def)

lemma mat3_data_inject: "(mat3_data a = mat3_data b) = (a = b)"
  by (cases a, cases b) (simp add: mat3_data_def)

lemma mat4_data_inject: "(mat4_data a = mat4_data b) = (a = b)"
  by (cases a, cases b) (simp add: mat4_data_def)

text \<open>A pair that is equal under \<^verbatim>\<open>==\<close> and finite passes the tolerance test of
  \<^verbatim>\<open>msh_vecN_equal\<close>: the difference is 0.\<close>

lemma float_zero_val: "float_is_zero x \<Longrightarrow> float_val x = Fin 0"
  by (simp add: float_is_zero_def float_val_def Let_def)

lemma float_eq_close:
  assumes "float_eq x y" "float_finite x"
  shows "fle (fabs (float_val x - float_val y)) MSH_FLT_EPSILON"
proof -
  obtain r where r: "float_val x = Fin r"
    using assms(2) by (auto simp add: float_finite_def is_finite_Fin)
  from assms(1) have "x = y \<or> (float_is_zero x \<and> float_is_zero y)"
    by (simp add: float_eq_def)
  then have "float_val y = Fin r"
    using r by (auto simp add: float_zero_val)
  with r show ?thesis
    by (simp add: minus_fval_def MSH_FLT_EPSILON_def)
qed

lemma mat2_equal_cols:
  assumes "list_all float_finite (mat2_data a)" "msh_mat2_equal a b = 1"
  shows "list_all2 (\<lambda>u v. msh_vec2_equal (vec2_val u) (vec2_val v) = 1) (mat2_col a) (mat2_col b)"
  using assms
  by (simp add: mat2_equal_float_eq mat2_data_def mat2_col_def vec2_val_def
      msh_vec2_equal_def msh_vec2_def float_eq_close split: if_splits)

lemma mat3_equal_cols:
  assumes "list_all float_finite (mat3_data a)" "msh_mat3_equal a b = 1"
  shows "list_all2 (\<lambda>u v. msh_vec3_equal (vec3_val u) (vec3_val v) = 1) (mat3_col a) (mat3_col b)"
  using assms
  by (simp add: mat3_equal_float_eq mat3_data_def mat3_col_def vec3_val_def
      msh_vec3_equal_def msh_vec3_def float_eq_close split: if_splits)

lemma mat4_equal_cols:
  assumes "list_all float_finite (mat4_data a)" "msh_mat4_equal a b = 1"
  shows "list_all2 (\<lambda>u v. msh_vec4_equal (vec4_val u) (vec4_val v) = 1) (mat4_col a) (mat4_col b)"
  using assms
  by (simp add: mat4_equal_float_eq mat4_data_def mat4_col_def vec4_val_def
      msh_vec4_equal_def msh_vec4_def float_eq_close split: if_splits)

lemma vec_equal_not_exact:
  "list_all2 (\<lambda>u v. msh_vec2_equal (vec2_val u) (vec2_val v) = 1) (mat2_col ones2) (mat2_col ones_eps2) \<and>
   msh_mat2_equal ones2 ones_eps2 = 0"
  by (simp add: mat2_equal_float_eq mat2_data_def mat2_col_def vec2_val_def
      msh_vec2_equal_def msh_vec2_def float_eq_def float_is_nan_def float_is_zero_def
      float_val_def MSH_FLT_EPSILON_def minus_fval_def ones2_def ones_eps2_def Let_def)

text \<open>The decoding on the patterns used below.\<close>

lemma float_val_samples:
  "float_val 0x3F800000 = Fin 1 \<and> float_val 0x3F800001 = Fin (1 + 1 / 2 ^ 23) \<and>
   float_val 0 = Fin 0 \<and> float_val 0x80000000 = Fin 0 \<and>
   float_val 0x7F800000 = PInf \<and> float_val 0xFF800000 = NInf \<and>
   float_val 0x7FC00000 = NaN \<and> float_val 0x34000000 = MSH_FLT_EPSILON \<and>
   float_val 0xC0000000 = Fin (- 2) \<and> float_val 1 = Fin (1 / 2 ^ 149)"
  by (simp add: float_val_def MSH_FLT_EPSILON_def Let_def)

text \<open>
  Claim C6, as stated: \<^verbatim>\<open>msh_matN_equal(a, b)\<close> returns 1 exactly when \<open>a\<close> and \<open>b\<close> are
  bitwise identical per component, and 0 otherwise, and is stricter than the
  epsilon-tolerance vector equal. The comparison is \<^verbatim>\<open>==\<close> on floats, so a matrix of
  NaNs is not equal to itself, and the matrices that differ only in the sign bit of a
  zero are equal. Nor is it stricter at an infinity: a matrix of infinities is equal to
  itself, and \<^verbatim>\<open>msh_vec2_equal\<close> on its columns is 0, as \<open>infinity - infinity\<close> is a NaN.
\<close>

theorem mat_equal_nan_and_zero:
  "msh_mat2_equal nan2 nan2 = 0 \<and>
   pos_zero2 \<noteq> neg_zero2 \<and> msh_mat2_equal pos_zero2 neg_zero2 = 1 \<and>
   msh_mat2_equal inf2 inf2 = 1 \<and>
   map2 (\<lambda>u v. msh_vec2_equal (vec2_val u) (vec2_val v)) (mat2_col inf2) (mat2_col inf2) = [0, 0]"
  by (simp add: mat2_equal_float_eq mat2_data_def mat2_col_def vec2_val_def msh_vec2_equal_def
      msh_vec2_def float_eq_def float_is_nan_def float_is_zero_def float_val_def
      MSH_FLT_EPSILON_def minus_fval_def nan2_def pos_zero2_def neg_zero2_def inf2_def Let_def)

text \<open>
  Claim C6, amended. For every pair of matrices \<open>a\<close>, \<open>b\<close> of the same size (2x2, 3x3 or
  4x4), \<^verbatim>\<open>msh_matN_equal(a, b)\<close> returns 1 exactly when every pair of corresponding
  components is equal under floating-point \<^verbatim>\<open>==\<close>, and 0 otherwise. When no component of
  \<open>a\<close> or \<open>b\<close> is a NaN and no two corresponding components are zeros of opposite sign,
  that is: 1 exactly when \<open>a\<close> and \<open>b\<close> are bitwise identical per component, and 0
  otherwise. On matrices with finite components it is stricter than the
  epsilon-tolerance vector equal: when \<^verbatim>\<open>msh_matN_equal(a, b)\<close> is 1 and the components
  of \<open>a\<close> are finite, \<^verbatim>\<open>msh_vecN_equal\<close> is 1 on every pair of corresponding columns, and
  not conversely (the columns of the all-\<open>1.0\<close> matrix and of the all-\<open>1 + 2^-23\<close> matrix
  are vector-equal, the matrices are not equal).
\<close>

theorem mat_equal_bitwise:
  "msh_mat2_equal a2 b2 = (if list_all2 float_eq (mat2_data a2) (mat2_data b2) then 1 else 0) \<and>
   msh_mat3_equal a3 b3 = (if list_all2 float_eq (mat3_data a3) (mat3_data b3) then 1 else 0) \<and>
   msh_mat4_equal a4 b4 = (if list_all2 float_eq (mat4_data a4) (mat4_data b4) then 1 else 0) \<and>
   (list_all2 plain_pair (mat2_data a2) (mat2_data b2) \<longrightarrow>
      msh_mat2_equal a2 b2 = (if a2 = b2 then 1 else 0)) \<and>
   (list_all2 plain_pair (mat3_data a3) (mat3_data b3) \<longrightarrow>
      msh_mat3_equal a3 b3 = (if a3 = b3 then 1 else 0)) \<and>
   (list_all2 plain_pair (mat4_data a4) (mat4_data b4) \<longrightarrow>
      msh_mat4_equal a4 b4 = (if a4 = b4 then 1 else 0)) \<and>
   (list_all float_finite (mat2_data a2) \<and> msh_mat2_equal a2 b2 = 1 \<longrightarrow>
      list_all2 (\<lambda>u v. msh_vec2_equal (vec2_val u) (vec2_val v) = 1) (mat2_col a2) (mat2_col b2)) \<and>
   (list_all float_finite (mat3_data a3) \<and> msh_mat3_equal a3 b3 = 1 \<longrightarrow>
      list_all2 (\<lambda>u v. msh_vec3_equal (vec3_val u) (vec3_val v) = 1) (mat3_col a3) (mat3_col b3)) \<and>
   (list_all float_finite (mat4_data a4) \<and> msh_mat4_equal a4 b4 = 1 \<longrightarrow>
      list_all2 (\<lambda>u v. msh_vec4_equal (vec4_val u) (vec4_val v) = 1) (mat4_col a4) (mat4_col b4)) \<and>
   list_all2 (\<lambda>u v. msh_vec2_equal (vec2_val u) (vec2_val v) = 1) (mat2_col ones2) (mat2_col ones_eps2) \<and>
   msh_mat2_equal ones2 ones_eps2 = 0"
proof -
  have bitwise:
    "list_all2 plain_pair (mat2_data a2) (mat2_data b2) \<longrightarrow>
       msh_mat2_equal a2 b2 = (if a2 = b2 then 1 else 0)"
    "list_all2 plain_pair (mat3_data a3) (mat3_data b3) \<longrightarrow>
       msh_mat3_equal a3 b3 = (if a3 = b3 then 1 else 0)"
    "list_all2 plain_pair (mat4_data a4) (mat4_data b4) \<longrightarrow>
       msh_mat4_equal a4 b4 = (if a4 = b4 then 1 else 0)"
    by (simp_all add: mat2_equal_float_eq mat3_equal_float_eq mat4_equal_float_eq
        plain_pairs_float_eq mat2_data_inject mat3_data_inject mat4_data_inject)
  show ?thesis
    using bitwise mat2_equal_cols [of a2 b2] mat3_equal_cols [of a3 b3]
      mat4_equal_cols [of a4 b4] vec_equal_not_exact
      mat2_equal_float_eq [of a2 b2] mat3_equal_float_eq [of a3 b3]
      mat4_equal_float_eq [of a4 b4]
    by blast
qed

theorem mat_equal_bitwise_witness:
  "list_all2 plain_pair (mat2_data float_identity2) (mat2_data float_identity2) \<and>
   list_all float_finite (mat2_data float_identity2) \<and>
   msh_mat2_equal float_identity2 float_identity2 = 1 \<and>
   list_all2 (\<lambda>u v. msh_vec2_equal (vec2_val u) (vec2_val v) = 1)
     (mat2_col float_identity2) (mat2_col float_identity2) \<and>
   list_all2 plain_pair (mat3_data float_identity3) (mat3_data float_identity3) \<and>
   list_all float_finite (mat3_data float_identity3) \<and>
   msh_mat3_equal float_identity3 float_identity3 = 1 \<and>
   list_all2 (\<lambda>u v. msh_vec3_equal (vec3_val u) (vec3_val v) = 1)
     (mat3_col float_identity3) (mat3_col float_identity3) \<and>
   list_all2 plain_pair (mat4_data float_identity4) (mat4_data float_identity4) \<and>
   list_all float_finite (mat4_data float_identity4) \<and>
   msh_mat4_equal float_identity4 float_identity4 = 1 \<and>
   list_all2 (\<lambda>u v. msh_vec4_equal (vec4_val u) (vec4_val v) = 1)
     (mat4_col float_identity4) (mat4_col float_identity4) \<and>
   list_all2 plain_pair (mat2_data float_identity2) (mat2_data pos_zero2) \<and>
   msh_mat2_equal float_identity2 pos_zero2 = 0"
proof -
  have plain:
    "list_all2 plain_pair (mat2_data float_identity2) (mat2_data float_identity2)"
    "list_all2 plain_pair (mat3_data float_identity3) (mat3_data float_identity3)"
    "list_all2 plain_pair (mat4_data float_identity4) (mat4_data float_identity4)"
    "list_all2 plain_pair (mat2_data float_identity2) (mat2_data pos_zero2)"
    by (simp_all add: mat2_data_def mat3_data_def mat4_data_def plain_pair_def float_is_nan_def
        float_is_zero_def float_identity2_def float_identity3_def float_identity4_def
        pos_zero2_def)
  have fin:
    "list_all float_finite (mat2_data float_identity2)"
    "list_all float_finite (mat3_data float_identity3)"
    "list_all float_finite (mat4_data float_identity4)"
    by (simp_all add: mat2_data_def mat3_data_def mat4_data_def float_finite_def is_finite_def
        float_val_def float_identity2_def float_identity3_def float_identity4_def Let_def)
  have ne: "float_identity2 \<noteq> pos_zero2"
    by (simp add: float_identity2_def pos_zero2_def)
  show ?thesis
    using plain fin ne
      mat_equal_bitwise [of float_identity2 float_identity2 float_identity3 float_identity3
        float_identity4 float_identity4]
      mat_equal_bitwise [of float_identity2 pos_zero2 float_identity3 float_identity3
        float_identity4 float_identity4]
    by simp
qed

subsection \<open>Quaternions\<close>

text \<open>What \<^verbatim>\<open>msh_quat_inverse\<close> computes, and what the conjugate over the squared norm is:
  they agree on the imaginary part, and the code's real part is 0 for every \<open>q\<close>.\<close>

lemma msh_quat_inverse_components:
  "msh_quat_inverse q =
     msh_quat (- quat_x q / msh_quat_norm_sq q) (- quat_y q / msh_quat_norm_sq q)
              (- quat_z q / msh_quat_norm_sq q) 0"
  by (simp add: msh_quat_inverse_def msh_quat_def Let_def)

lemma spec_quat_inverse_components:
  "spec_quat_inverse q =
     msh_quat (- quat_x q / msh_quat_norm_sq q) (- quat_y q / msh_quat_norm_sq q)
              (- quat_z q / msh_quat_norm_sq q) (quat_w q / msh_quat_norm_sq q)"
  by (simp add: spec_quat_inverse_def msh_quat_scalar_div_def msh_quat_conjugate_def
      quat_of_im_re_def quat_re_def msh_vec3_def msh_quat_def Let_def)

lemma msh_quat_inverse_differs:
  assumes "msh_quat_norm_sq q \<noteq> 0" "quat_w q \<noteq> 0"
  shows "msh_quat_inverse q \<noteq> spec_quat_inverse q"
  using assms by (simp add: msh_quat_inverse_components spec_quat_inverse_components msh_quat_def)

text \<open>
  Claim C1 says that for every \<open>q\<close> with nonzero squared norm \<^verbatim>\<open>msh_quat_inverse(q)\<close> is
  the conjugate of \<open>q\<close> divided component-wise by the squared norm, with scalar component
  \<open>q.w / norm_sq(q)\<close>. The code at the identity quaternion \<open>(0, 0, 0, 1)\<close>, of squared
  norm 1: it returns the zero quaternion, where the conjugate over the squared norm is
  the identity again.
\<close>

theorem quat_inverse_identity:
  "msh_quat_norm_sq msh_quat_identity = 1 \<and>
   msh_quat_inverse msh_quat_identity = msh_quat_zeros \<and>
   spec_quat_inverse msh_quat_identity = msh_quat_identity \<and>
   quat_w (msh_quat_inverse msh_quat_identity) = 0 \<and>
   quat_w msh_quat_identity / msh_quat_norm_sq msh_quat_identity = 1"
  by (simp add: msh_quat_inverse_def spec_quat_inverse_def msh_quat_scalar_div_def
      msh_quat_conjugate_def quat_of_im_re_def quat_re_def msh_vec3_def msh_quat_def
      msh_quat_identity_def msh_quat_zeros_def msh_quat_norm_sq_def Let_def)

text \<open>
  Claim C8. For every 3-vector \<open>axis\<close> and every scalar \<open>angle\<close>,
  \<^verbatim>\<open>msh_quat_from_axis_angle(axis, angle)\<close> is the quaternion whose imaginary part is
  \<open>axis\<close> scaled by \<open>sin(angle/2)\<close> and whose real part is \<open>cos(angle/2)\<close>. The axis is
  not normalised by the function; nothing is asked of it here.
\<close>

theorem quat_from_axis_angle_formula:
  "quat_im (msh_quat_from_axis_angle axis angle) = msh_vec3_scalar_mul axis (sin (angle / 2)) \<and>
   quat_re (msh_quat_from_axis_angle axis angle) = cos (angle / 2)"
  by (simp add: msh_quat_from_axis_angle_def quat_im_def quat_re_def msh_vec3_scalar_mul_def
      msh_quat_def msh_vec3_def Let_def)

text \<open>
  Claim C10. For every quaternion \<open>q\<close> and scalar \<open>s\<close>, \<^verbatim>\<open>msh_quat_scalar_add\<close> and
  \<^verbatim>\<open>msh_quat_scalar_sub\<close> change only the real component \<open>w\<close> (to \<open>w + s\<close> and \<open>w - s\<close>)
  and leave the imaginary part \<open>(x, y, z)\<close> as it is, while the vector
  \<^verbatim>\<open>scalar_add\<close> and \<^verbatim>\<open>scalar_sub\<close> of every dimension apply the scalar to every
  component.
\<close>

theorem quat_scalar_add_sub_frame:
  "quat_im (msh_quat_scalar_add q s) = quat_im q \<and>
   quat_re (msh_quat_scalar_add q s) = quat_re q + s \<and>
   quat_im (msh_quat_scalar_sub q s) = quat_im q \<and>
   quat_re (msh_quat_scalar_sub q s) = quat_re q - s \<and>
   msh_quat_scalar_add q s = q\<lparr>quat_w := quat_w q + s\<rparr> \<and>
   msh_quat_scalar_sub q s = q\<lparr>quat_w := quat_w q - s\<rparr> \<and>
   msh_vec2_scalar_add v2 s = \<lparr>vec2_x = vec2_x v2 + s, vec2_y = vec2_y v2 + s\<rparr> \<and>
   msh_vec3_scalar_add v3 s =
     \<lparr>vec3_x = vec3_x v3 + s, vec3_y = vec3_y v3 + s, vec3_z = vec3_z v3 + s\<rparr> \<and>
   msh_vec4_scalar_add v4 s =
     \<lparr>vec4_x = vec4_x v4 + s, vec4_y = vec4_y v4 + s, vec4_z = vec4_z v4 + s,
      vec4_w = vec4_w v4 + s\<rparr> \<and>
   msh_vec2_scalar_sub v2 s = \<lparr>vec2_x = vec2_x v2 - s, vec2_y = vec2_y v2 - s\<rparr> \<and>
   msh_vec3_scalar_sub v3 s =
     \<lparr>vec3_x = vec3_x v3 - s, vec3_y = vec3_y v3 - s, vec3_z = vec3_z v3 - s\<rparr> \<and>
   msh_vec4_scalar_sub v4 s =
     \<lparr>vec4_x = vec4_x v4 - s, vec4_y = vec4_y v4 - s, vec4_z = vec4_z v4 - s,
      vec4_w = vec4_w v4 - s\<rparr>"
  by (simp add: msh_quat_scalar_add_def msh_quat_scalar_sub_def quat_im_def quat_re_def
      msh_vec2_scalar_add_def msh_vec3_scalar_add_def msh_vec4_scalar_add_def
      msh_vec2_scalar_sub_def msh_vec3_scalar_sub_def msh_vec4_scalar_sub_def
      msh_vec2_def msh_vec3_def msh_vec4_def)

subsection \<open>Spherical interpolation\<close>

lemma quat_scalar_mul_one: "msh_quat_scalar_mul q 1 = q"
  by (simp add: msh_quat_scalar_mul_def quat_of_im_re_def msh_vec3_scalar_mul_def quat_im_def
      quat_re_def msh_vec3_def)

lemma quat_scalar_mul_zero: "msh_quat_scalar_mul q 0 = msh_quat 0 0 0 0"
  by (simp add: msh_quat_scalar_mul_def quat_of_im_re_def msh_vec3_scalar_mul_def quat_im_def
      quat_re_def msh_vec3_def msh_quat_def)

lemma quat_add_zero:
  "msh_quat_add q (msh_quat 0 0 0 0) = q" "msh_quat_add (msh_quat 0 0 0 0) q = q"
  by (simp_all add: msh_quat_add_def msh_quat_def)

lemma quat_lerp_ends: "msh_quat_lerp q r 0 = q" "msh_quat_lerp q r 1 = r"
  by (simp_all add: msh_quat_lerp_def)

text \<open>
  Claim C3. For all unit quaternions \<open>q\<close> and \<open>r\<close>, \<^verbatim>\<open>msh_quat_slerp(q, r, 0)\<close> is \<open>q\<close> and
  \<^verbatim>\<open>msh_quat_slerp(q, r, 1)\<close> is \<open>r\<close>. This holds for all quaternions, unit or not,
  whatever \<^verbatim>\<open>acosf\<close> returns, as long as an angle above the threshold has a nonzero
  sine. That is so for every angle \<^verbatim>\<open>acosf\<close> can return: it is a float, and no float
  but 0 is a multiple of \<open>pi\<close>. In the antipodal case \<open>r = - q\<close> the code divides by the
  sine of the float nearest to \<open>pi\<close>.
\<close>

theorem slerp_endpoints:
  assumes "\<And>a. acosf (msh_quat_dot q r) = Some a \<Longrightarrow> 1 / 1000000 < \<bar>a\<bar> \<Longrightarrow> sin a \<noteq> 0"
  shows "msh_quat_slerp acosf q r 0 = q \<and> msh_quat_slerp acosf q r 1 = r"
proof (cases "acosf (msh_quat_dot q r)")
  case None
  then show ?thesis by (simp add: msh_quat_slerp_def quat_lerp_ends)
next
  case (Some a)
  show ?thesis
  proof (cases "1 / 1000000 < \<bar>a\<bar>")
    case True
    with Some assms have "sin a \<noteq> 0" by blast
    with Some True show ?thesis
      by (simp add: msh_quat_slerp_def quat_scalar_mul_one quat_scalar_mul_zero quat_add_zero)
  next
    case False
    with Some show ?thesis by (simp add: msh_quat_slerp_def quat_lerp_ends)
  qed
qed

text \<open>The theorem on the interpolating branch: a quarter turn between \<open>(0, 0, 0, 1)\<close> and
  \<open>(1, 0, 0, 0)\<close>, of dot product 0 and angle \<open>pi / 2\<close>.\<close>

theorem slerp_endpoints_witness:
  "msh_quat_norm_sq (msh_quat 0 0 0 1) = 1 \<and> msh_quat_norm_sq (msh_quat 1 0 0 0) = 1 \<and>
   1 / 1000000 < \<bar>arccos (msh_quat_dot (msh_quat 0 0 0 1) (msh_quat 1 0 0 0))\<bar> \<and>
   sin (arccos (msh_quat_dot (msh_quat 0 0 0 1) (msh_quat 1 0 0 0))) \<noteq> 0 \<and>
   msh_quat_slerp (\<lambda>x. Some (arccos x)) (msh_quat 0 0 0 1) (msh_quat 1 0 0 0) 0
     = msh_quat 0 0 0 1 \<and>
   msh_quat_slerp (\<lambda>x. Some (arccos x)) (msh_quat 0 0 0 1) (msh_quat 1 0 0 0) 1
     = msh_quat 1 0 0 0"
proof -
  have d: "msh_quat_dot (msh_quat 0 0 0 1) (msh_quat 1 0 0 0) = 0"
    by (simp add: msh_quat_dot_def msh_quat_def)
  have n: "msh_quat_norm_sq (msh_quat 0 0 0 1) = 1" "msh_quat_norm_sq (msh_quat 1 0 0 0) = 1"
    by (simp_all add: msh_quat_norm_sq_def msh_quat_def)
  have big: "1 / 1000000 < \<bar>arccos (0::real)\<bar>"
    using pi_ge_two by simp
  have h: "\<And>a. (\<lambda>x. Some (arccos x)) (msh_quat_dot (msh_quat 0 0 0 1) (msh_quat 1 0 0 0)) = Some a
             \<Longrightarrow> 1 / 1000000 < \<bar>a\<bar> \<Longrightarrow> sin a \<noteq> 0"
  proof -
    fix a :: real
    assume "(\<lambda>x. Some (arccos x)) (msh_quat_dot (msh_quat 0 0 0 1) (msh_quat 1 0 0 0)) = Some a"
    then have "a = pi / 2" using d by simp
    then have "sin a = 1" by (simp only: sin_pi_half)
    then show "sin a \<noteq> 0" by simp
  qed
  from slerp_endpoints [of "\<lambda>x. Some (arccos x)" "msh_quat 0 0 0 1" "msh_quat 1 0 0 0", OF h]
  show ?thesis using d n big by simp
qed

end
